theory Spec2Isabelle
  imports Complex_Main "HOL-Library.Word"
begin

section \<open>The camera node of whack-a-mole: data model\<close>

text \<open>
  The development embeds \<^verbatim>\<open>whack_a_mole/camera.py\<close>: the class \<^verbatim>\<open>Camera\<close> with its
  timer callback, its toggle service, the per-color broadcast and the centroid search.
  Mutation of \<^verbatim>\<open>self\<close> and of \<^verbatim>\<open>self.cv2_client\<close> is explicit state passing on one
  record; what the node publishes is appended to two output lists of that record.
  Python exceptions are values of \<open>error\<close>.
\<close>

datatype error = KeyError | IndexError | ValueError

text \<open>A \<^verbatim>\<open>bgr8\<close> pixel: three unsigned bytes.\<close>

type_synonym pixel = "8 word \<times> 8 word \<times> 8 word"

text \<open>
  Images are numpy arrays, modelled as lists of rows (row index \<open>y\<close> first, then
  column index \<open>x\<close>). Every numpy array is rectangular. The depth image has one
  channel; its values are compared as Python integers.
\<close>

type_synonym color_img = "pixel list list"
type_synonym depth_img = "int list list"
type_synonym mask_img = "8 word list list"

text \<open>
  The HSV bounds of the table \<^verbatim>\<open>COLORS_HSV\<close> are numpy arrays: a vector of three
  numbers, or two such vectors stacked (a hue that wraps around). Indexing a vector
  gives a scalar.
\<close>

datatype np_bound = Scalar nat | Vec nat nat nat | Mat "nat \<times> nat \<times> nat" "nat \<times> nat \<times> nat"

text \<open>\<^verbatim>\<open>a.shape[0]\<close>; a scalar has the empty shape and the index raises.\<close>

fun shape0 :: "np_bound \<Rightarrow> error + nat" where
  "shape0 (Scalar _) = Inl IndexError"
| "shape0 (Vec _ _ _) = Inr 3"
| "shape0 (Mat _ _) = Inr 2"

text \<open>\<^verbatim>\<open>a[0]\<close> and \<^verbatim>\<open>a[1]\<close>.\<close>

fun idx0 :: "np_bound \<Rightarrow> error + np_bound" where
  "idx0 (Scalar _) = Inl IndexError"
| "idx0 (Vec h _ _) = Inr (Scalar h)"
| "idx0 (Mat (h, s, v) _) = Inr (Vec h s v)"

fun idx1 :: "np_bound \<Rightarrow> error + np_bound" where
  "idx1 (Scalar _) = Inl IndexError"
| "idx1 (Vec _ s _) = Inr (Scalar s)"
| "idx1 (Mat _ (h, s, v)) = Inr (Vec h s v)"

text \<open>A \<^verbatim>\<open>TransformStamped\<close> message: header stamp and frame, child frame, translation
  and rotation quaternion \<open>(x, y, z, w)\<close>.\<close>

record transform =
  stamp :: nat
  frame_id :: string
  child_frame_id :: string
  translation :: "real \<times> real \<times> real"
  rotation :: "real \<times> real \<times> real \<times> real"

text \<open>
  The state of the node. \<open>color_image\<close>, \<open>depth_image\<close>, \<open>camera_intrinsics\<close> and
  \<open>running_avg\<close> are the attributes of \<^verbatim>\<open>self.cv2_client\<close> that the node reads and
  writes; \<open>running_avg\<close> holds one centroid history per color index, oldest sample
  first. \<open>image_pub\<close> and \<open>tf_broadcaster\<close> list what has been published on
  \<^verbatim>\<open>filtered_image\<close> and sent as transforms, oldest first. \<open>clock\<close> is the reading of
  the node's clock.
\<close>

record camera =
  color_image :: color_img
  depth_image :: depth_img
  camera_intrinsics :: "real list"
  running_avg :: "(int \<times> int) list list"
  crop :: "(int \<times> int) \<times> (int \<times> int)"
  clipping_distance :: int
  prev_xyz :: "real \<times> real \<times> real"
  update_colors :: bool
  image_pub :: "color_img list"
  tf_broadcaster :: "transform list"
  clock :: nat

text \<open>
  What the node imports and does not define: the two constant tables of
  \<^verbatim>\<open>whack_a_mole.constants\<close> (dictionaries, kept in insertion order with distinct
  keys), the OpenCV operations, and the deprojection of \<^verbatim>\<open>OpenCVClient\<close>. They are
  parameters of every definition below.
  \<^item> \<open>in_range lo hi p\<close>: whether \<^verbatim>\<open>cv2.inRange(cv2.cvtColor(img, COLOR_BGR2HSV), lo, hi)\<close>
    is on at a pixel of value \<open>p\<close>; both OpenCV operations act pixel by pixel, and
    \<^verbatim>\<open>inRange\<close> writes 255 for on and 0 for off.
  \<^item> \<open>get_3d_coordinates_at_pixel depth intrinsics x y frame_name\<close>.
  \<^item> \<open>cv2_circle img center\<close>, \<open>cv2_putText img label org\<close>,
    \<open>cv2_rectangle img pt1 pt2\<close>: the drawing calls, with the constants of the source
    (radius, colors, thickness, font) fixed.
\<close>

record env =
  COLORS :: "(string \<times> nat) list"
  COLORS_HSV :: "(string \<times> np_bound \<times> np_bound) list"
  in_range :: "np_bound \<Rightarrow> np_bound \<Rightarrow> pixel \<Rightarrow> bool"
  get_3d_coordinates_at_pixel ::
    "depth_img \<Rightarrow> real list \<Rightarrow> int \<Rightarrow> int \<Rightarrow> string \<Rightarrow> real \<times> real \<times> real"
  cv2_circle :: "color_img \<Rightarrow> int \<times> int \<Rightarrow> color_img"
  cv2_putText :: "color_img \<Rightarrow> string \<Rightarrow> int \<times> int \<Rightarrow> color_img"
  cv2_rectangle :: "color_img \<Rightarrow> int \<times> int \<Rightarrow> int \<times> int \<Rightarrow> color_img"

section \<open>Asynchronous ingestion and the toggle service\<close>

definition get_depth_info :: "depth_img \<Rightarrow> camera \<Rightarrow> camera" where
  "get_depth_info msg s = s\<lparr>depth_image := msg\<rparr>"

definition get_color_info :: "color_img \<Rightarrow> camera \<Rightarrow> camera" where
  "get_color_info msg s = s\<lparr>color_image := msg\<rparr>"

definition camera_info_callback :: "real list \<Rightarrow> camera \<Rightarrow> camera" where
  "camera_info_callback k s = s\<lparr>camera_intrinsics := k\<rparr>"

definition toggle_tf_publish :: "camera \<Rightarrow> camera" where
  "toggle_tf_publish s = s\<lparr>update_colors := \<not> update_colors s\<rparr>"

section \<open>Depth gate\<close>

text \<open>
  \<^verbatim>\<open>np.where((depth_image_3d > clipping_distance) | (depth_image_3d <= 0), 0, color_image)\<close>.
  The depth image is stacked three times, so the condition is the same on the three
  channels of a pixel: a pixel is replaced by zeros or copied whole.
\<close>

definition gate :: "int \<Rightarrow> int \<Rightarrow> pixel \<Rightarrow> pixel" where
  "gate clip d p = (if d > clip \<or> d \<le> 0 then (0, 0, 0) else p)"

text \<open>
  numpy broadcasts the two operands: along an axis the sizes are equal, or one of
  them is 1 and that operand is repeated; otherwise \<^verbatim>\<open>np.where\<close> raises.
\<close>

definition np_shape :: "'a list list \<Rightarrow> nat \<times> nat" where
  "np_shape a = (length a, case a of [] \<Rightarrow> 0 | r # _ \<Rightarrow> length r)"

definition broadcast_dim :: "nat \<Rightarrow> nat \<Rightarrow> nat option" where
  "broadcast_dim m n =
     (if m = n then Some m else if m = 1 then Some n else if n = 1 then Some m else None)"

definition pick :: "nat \<Rightarrow> nat \<Rightarrow> nat" where
  "pick n i = (if n = 1 then 0 else i)"

definition bg_removed_of :: "int \<Rightarrow> depth_img \<Rightarrow> color_img \<Rightarrow> error + color_img" where
  "bg_removed_of clip depth color =
     (let (h_d, w_d) = np_shape depth; (h_c, w_c) = np_shape color in
      case (broadcast_dim h_d h_c, broadcast_dim w_d w_c) of
        (Some h, Some w) \<Rightarrow>
          Inr (map (\<lambda>i. map (\<lambda>j. gate clip (depth ! pick h_d i ! pick w_d j)
                                            (color ! pick h_c i ! pick w_c j)) [0..<w]) [0..<h])
      | _ \<Rightarrow> Inl ValueError)"

section \<open>Color segmentation\<close>

definition inRange_hsv :: "env \<Rightarrow> color_img \<Rightarrow> np_bound \<Rightarrow> np_bound \<Rightarrow> mask_img" where
  "inRange_hsv E img lo hi = map (map (\<lambda>p. if in_range E lo hi p then 255 else 0)) img"

text \<open>\<^verbatim>\<open>mask1 + mask2\<close> on arrays of unsigned bytes of one shape: the sum wraps.\<close>

definition mask_add :: "mask_img \<Rightarrow> mask_img \<Rightarrow> mask_img" where
  "mask_add m1 m2 = map2 (map2 (+)) m1 m2"

definition segment :: "env \<Rightarrow> np_bound \<Rightarrow> np_bound \<Rightarrow> color_img \<Rightarrow> error + mask_img" where
  "segment E lower_HSV higher_HSV bg_removed =
     (case shape0 lower_HSV of
        Inl e \<Rightarrow> Inl e
      | Inr n \<Rightarrow>
          if n = 2 then
            (case (idx0 lower_HSV, idx0 higher_HSV, idx1 lower_HSV, idx1 higher_HSV) of
               (Inr l0, Inr h0, Inr l1, Inr h1) \<Rightarrow>
                 Inr (mask_add (inRange_hsv E bg_removed l0 h0) (inRange_hsv E bg_removed l1 h1))
             | _ \<Rightarrow> Inl IndexError)
          else Inr (inRange_hsv E bg_removed lower_HSV higher_HSV))"

definition np_any :: "mask_img \<Rightarrow> bool" where
  "np_any msk = list_ex (list_ex (\<lambda>v. v \<noteq> 0)) msk"

section \<open>Centroid of the mask in the region of interest\<close>

text \<open>
  Modelled from the spec: \<^verbatim>\<open>OpenCVClient.find_centroid_cropped\<close> is defined in
  \<^verbatim>\<open>whack_a_mole/mole_detection.py\<close>, which is not among the sources. The spec: the
  centroid extractor takes a binary mask and a rectangle (start, end), computes the
  mean pixel coordinate of the on pixels restricted to the rectangle, and returns the
  not-found result \<open>(-1, -1)\<close> when no on pixel exists in the rectangle. The rectangle
  is the one its two corner pixels define, corners included. The argument is the tuple
  \<^verbatim>\<open>(*crop[0], *crop[1])\<close>, kept here as the pair of corners.
\<close>

definition in_rect :: "(int \<times> int) \<times> (int \<times> int) \<Rightarrow> int \<times> int \<Rightarrow> bool" where
  "in_rect r p =
     (fst (fst r) \<le> fst p \<and> fst p \<le> fst (snd r) \<and> snd (fst r) \<le> snd p \<and> snd p \<le> snd (snd r))"

definition on_pixels :: "mask_img \<Rightarrow> (int \<times> int) list" where
  "on_pixels msk =
     concat (map (\<lambda>y. map (\<lambda>x. (int x, int y))
                          (filter (\<lambda>x. msk ! y ! x \<noteq> 0) [0..<length (msk ! y)]))
                 [0..<length msk])"

definition find_centroid_cropped :: "mask_img \<Rightarrow> (int \<times> int) \<times> (int \<times> int) \<Rightarrow> real \<times> real" where
  "find_centroid_cropped msk r =
     (let ps = filter (in_rect r) (on_pixels msk) in
      if ps = [] then (-1, -1)
      else (real_of_int (sum_list (map fst ps)) / real (length ps),
            real_of_int (sum_list (map snd ps)) / real (length ps)))"

text \<open>Python's \<^verbatim>\<open>int(x)\<close> on a float, and numpy's cast to \<^verbatim>\<open>dtype=int\<close>: truncation
  towards zero.\<close>

definition py_int :: "real \<Rightarrow> int" where
  "py_int r = (if 0 \<le> r then \<lfloor>r\<rfloor> else \<lceil>r\<rceil>)"

section \<open>Temporal smoothing\<close>

text \<open>
  \<^verbatim>\<open>np.median(column)\<close>: the middle element of the sorted column, or the mean of the
  two middle elements when the length is even.
\<close>

definition np_median :: "int list \<Rightarrow> real" where
  "np_median xs =
     (let s = sort xs; n = length xs in
      if odd n then real_of_int (s ! (n div 2))
      else (real_of_int (s ! (n div 2 - 1)) + real_of_int (s ! (n div 2))) / 2)"

text \<open>
  \<^verbatim>\<open>np.array(np.median(h, axis=0), dtype=int)\<close> for a history \<open>h\<close> with at least one
  sample.
\<close>

definition np_median_int :: "(int \<times> int) list \<Rightarrow> int \<times> int" where
  "np_median_int h = (py_int (np_median (map fst h)), py_int (np_median (map snd h)))"

text \<open>
  The smoothed centroid of the color with index \<open>k\<close>. An index beyond the array raises.
  The median of an empty history is NaN and its cast to an integer is not defined by
  numpy; the model stops there with \<open>ValueError\<close>.
\<close>

definition median_at :: "camera \<Rightarrow> nat \<Rightarrow> error + (int \<times> int)" where
  "median_at s k =
     (if k < length (running_avg s) then
        (if running_avg s ! k = [] then Inl ValueError
         else Inr (np_median_int (running_avg s ! k)))
      else Inl IndexError)"

text \<open>
  \<^verbatim>\<open>running_avg[k, :-1] = running_avg[k, 1:]; running_avg[k, -1] = [x_c, y_c]\<close>: the
  oldest sample is dropped and the new one is written at the end.
\<close>

definition shift_history :: "nat \<Rightarrow> int \<times> int \<Rightarrow> camera \<Rightarrow> error + camera" where
  "shift_history k c s =
     (if k < length (running_avg s) \<and> running_avg s ! k \<noteq> [] then
        Inr (s\<lparr>running_avg := (running_avg s)[k := tl (running_avg s ! k) @ [c]]\<rparr>)
      else Inl IndexError)"

section \<open>The centroid search and the filtered image\<close>

text \<open>The loop over \<^verbatim>\<open>COLORS\<close> that circles and labels every smoothed centroid.\<close>

fun annotate :: "env \<Rightarrow> (string \<times> nat) list \<Rightarrow> camera \<Rightarrow> color_img \<Rightarrow> error + color_img" where
  "annotate E [] s img = Inr img"
| "annotate E ((color, color_index) # rest) s img =
     (case median_at s color_index of
        Inl e \<Rightarrow> Inl e
      | Inr avg_centroid \<Rightarrow>
          annotate E rest s (cv2_putText E (cv2_circle E img avg_centroid) color avg_centroid))"

definition find_color_centroid ::
    "env \<Rightarrow> np_bound \<Rightarrow> np_bound \<Rightarrow> camera \<Rightarrow> error + ((int \<times> int) \<times> camera)" where
  "find_color_centroid E lower_HSV higher_HSV s =
     (case bg_removed_of (clipping_distance s) (depth_image s) (color_image s) of
        Inl e \<Rightarrow> Inl e
      | Inr bg_removed \<Rightarrow>
          (case segment E lower_HSV higher_HSV bg_removed of
             Inl e \<Rightarrow> Inl e
           | Inr msk \<Rightarrow>
               if \<not> np_any msk then Inr ((-1, -1), s)
               else
                 (let (x_c, y_c) = find_centroid_cropped msk (crop s) in
                  case annotate E (COLORS E) s bg_removed of
                    Inl e \<Rightarrow> Inl e
                  | Inr img \<Rightarrow>
                      Inr ((py_int x_c, py_int y_c),
                           s\<lparr>image_pub := image_pub s @
                               [cv2_rectangle E img (fst (crop s)) (snd (crop s))]\<rparr>))))"

section \<open>Broadcast of one color\<close>

definition broadcast_color_frame :: "env \<Rightarrow> string \<Rightarrow> string \<Rightarrow> int \<Rightarrow> int \<Rightarrow> camera \<Rightarrow> camera" where
  "broadcast_color_frame E base_frame child_frame x_c y_c s =
     (let (x, y, z) = get_3d_coordinates_at_pixel E (depth_image s) (camera_intrinsics s)
                        x_c y_c child_frame;
          s1 = (if x = -1 then s else s\<lparr>prev_xyz := (x, y, z)\<rparr>);
          (x, y, z) = (if x = -1 then prev_xyz s else (x, y, z));
          t = \<lparr>stamp = clock s1, frame_id = base_frame, child_frame_id = child_frame,
               translation = (z, - x, - y), rotation = (0, 0, 0, 1)\<rparr>
      in s1\<lparr>tf_broadcaster := tf_broadcaster s1 @ [t]\<rparr>)"

definition broadcast_color :: "env \<Rightarrow> np_bound \<Rightarrow> np_bound \<Rightarrow> string \<Rightarrow> camera \<Rightarrow> error + camera" where
  "broadcast_color E lower_HSV higher_HSV color s =
     (case map_of (COLORS E) color of
        None \<Rightarrow> Inl KeyError
      | Some color_index \<Rightarrow>
          (case find_color_centroid E lower_HSV higher_HSV s of
             Inl e \<Rightarrow> Inl e
           | Inr ((x_c, y_c), s1) \<Rightarrow>
               (case (if x_c \<noteq> 0 \<and> y_c \<noteq> 0 \<and> update_colors s1
                      then shift_history color_index (x_c, y_c) s1 else Inr s1) of
                  Inl e \<Rightarrow> Inl e
                | Inr s2 \<Rightarrow>
                    (case median_at s2 color_index of
                       Inl e \<Rightarrow> Inl e
                     | Inr median_centroid \<Rightarrow>
                         Inr (broadcast_color_frame E ''camera_depth_frame'' (color @ ''_frame'')
                                (fst median_centroid) (snd median_centroid) s2)))))"

section \<open>The timer callback\<close>

text \<open>
  Modelled from the spec: \<^verbatim>\<open>OpenCVClient.detect_illumination\<close> is called once per color
  after the broadcast and is not among the sources. The spec gives the tick no step
  beyond detection, smoothing, deprojection and broadcast, so the call leaves the
  state of this model as it is.
\<close>

definition detect_illumination :: "string \<Rightarrow> camera \<Rightarrow> camera" where
  "detect_illumination color s = s"

text \<open>The loop \<^verbatim>\<open>for color in COLORS_HSV.keys()\<close>; an exception ends it.\<close>

fun colors_loop :: "env \<Rightarrow> (string \<times> np_bound \<times> np_bound) list \<Rightarrow> camera \<Rightarrow> error + camera" where
  "colors_loop E [] s = Inr s"
| "colors_loop E ((color, lower_HSV, higher_HSV) # rest) s =
     (case broadcast_color E lower_HSV higher_HSV color s of
        Inl e \<Rightarrow> Inl e
      | Inr s' \<Rightarrow> colors_loop E rest (detect_illumination color s'))"

definition timer_callback :: "env \<Rightarrow> camera \<Rightarrow> error + camera" where
  "timer_callback E s =
     (if length (color_image s) = 0 \<or> length (depth_image s) = 0 then Inr s
      else colors_loop E (COLORS_HSV E) s)"

text \<open>
  The executor runs the callbacks one at a time (single-threaded); a run of the node
  is a list of events.
\<close>

datatype event =
    Tick
  | Toggle
  | ColorMsg color_img
  | DepthMsg depth_img
  | InfoMsg "real list"

fun handle :: "env \<Rightarrow> event \<Rightarrow> camera \<Rightarrow> error + camera" where
  "handle E Tick s = timer_callback E s"
| "handle E Toggle s = Inr (toggle_tf_publish s)"
| "handle E (ColorMsg m) s = Inr (get_color_info m s)"
| "handle E (DepthMsg m) s = Inr (get_depth_info m s)"
| "handle E (InfoMsg k) s = Inr (camera_info_callback k s)"

fun run :: "env \<Rightarrow> event list \<Rightarrow> camera \<Rightarrow> error + camera" where
  "run E [] s = Inr s"
| "run E (e # es) s = (case handle E e s of Inl err \<Rightarrow> Inl err | Inr s' \<Rightarrow> run E es s')"

section \<open>Notions used to state the properties\<close>

text \<open>The mask that \<open>find_color_centroid\<close> computes for one entry of the color table.\<close>

definition color_mask :: "env \<Rightarrow> np_bound \<Rightarrow> np_bound \<Rightarrow> camera \<Rightarrow> error + mask_img" where
  "color_mask E lower_HSV higher_HSV s =
     (case bg_removed_of (clipping_distance s) (depth_image s) (color_image s) of
        Inl e \<Rightarrow> Inl e
      | Inr bg_removed \<Rightarrow> segment E lower_HSV higher_HSV bg_removed)"

text \<open>An entry of the color table whose mask has an on pixel somewhere in the image.\<close>

definition detected :: "env \<Rightarrow> camera \<Rightarrow> string \<times> np_bound \<times> np_bound \<Rightarrow> bool" where
  "detected E s entry =
     (case color_mask E (fst (snd entry)) (snd (snd entry)) s of
        Inl e \<Rightarrow> False
      | Inr msk \<Rightarrow> np_any msk)"

text \<open>
  A configuration and state on which no step of a tick raises: the two images
  broadcast against each other, every bound of the color table can be indexed as the
  segmentation indexes it, every color of both tables has a history, and no history is
  empty.
\<close>

definition has_history :: "camera \<Rightarrow> nat \<Rightarrow> bool" where
  "has_history s k = (k < length (running_avg s) \<and> running_avg s ! k \<noteq> [])"

definition entry_ok :: "env \<Rightarrow> camera \<Rightarrow> string \<times> np_bound \<times> np_bound \<Rightarrow> bool" where
  "entry_ok E s entry =
     ((case segment E (fst (snd entry)) (snd (snd entry)) [] of
         Inl e \<Rightarrow> False | Inr m \<Rightarrow> True) \<and>
      (case map_of (COLORS E) (fst entry) of
         None \<Rightarrow> False | Some k \<Rightarrow> has_history s k))"

definition tick_ok :: "env \<Rightarrow> camera \<Rightarrow> bool" where
  "tick_ok E s =
     ((case bg_removed_of (clipping_distance s) (depth_image s) (color_image s) of
         Inl e \<Rightarrow> False | Inr bg \<Rightarrow> True) \<and>
      list_all (entry_ok E s) (COLORS_HSV E) \<and>
      list_all (\<lambda>entry. has_history s (snd entry)) (COLORS E))"

text \<open>
  The spec's words for a tick while the Publish-Enable Flag is false: frames continue
  to be broadcast using the frozen, smoothed history. For each color of the table in
  turn, one frame is broadcast from the median of the history as it stands.
\<close>

fun frozen_broadcast :: "env \<Rightarrow> (string \<times> np_bound \<times> np_bound) list \<Rightarrow> camera \<Rightarrow> camera" where
  "frozen_broadcast E [] s = s"
| "frozen_broadcast E ((color, lower_HSV, higher_HSV) # rest) s =
     (case map_of (COLORS E) color of
        None \<Rightarrow> s
      | Some k \<Rightarrow>
          frozen_broadcast E rest
            (broadcast_color_frame E ''camera_depth_frame'' (color @ ''_frame'')
               (fst (np_median_int (running_avg s ! k)))
               (snd (np_median_int (running_avg s ! k))) s))"

section \<open>A small configuration for concrete runs\<close>

text \<open>
  Two colors. The stand-in for the OpenCV threshold agrees with OpenCV on the three
  pixel values used: pure red has hue 0 and lies in the first red range only, pure
  green has hue 60 and lies in the green range, black lies in no range. The stand-in
  for the deprojection is the pinhole model with unit focal lengths and the principal
  point at the origin, and \<open>(-1, -1, -1)\<close> for a pixel outside the image or of depth 0.
  The drawing calls leave the image as it is.
\<close>

definition demo_in_range :: "np_bound \<Rightarrow> np_bound \<Rightarrow> pixel \<Rightarrow> bool" where
  "demo_in_range lo hi p =
     ((lo = Vec 0 100 100 \<and> p = (0, 0, 255)) \<or> (lo = Vec 40 100 100 \<and> p = (0, 255, 0)))"

definition demo_get_3d ::
    "depth_img \<Rightarrow> real list \<Rightarrow> int \<Rightarrow> int \<Rightarrow> string \<Rightarrow> real \<times> real \<times> real" where
  "demo_get_3d depth k x y frame_name =
     (if 0 \<le> y \<and> nat y < length depth \<and> 0 \<le> x \<and> nat x < length (depth ! nat y)
         \<and> depth ! nat y ! nat x \<noteq> 0
      then (let z = real_of_int (depth ! nat y ! nat x)
            in (real_of_int x * z, real_of_int y * z, z))
      else (-1, -1, -1))"

definition demo_env :: env where
  "demo_env =
     \<lparr>COLORS = [(''RED'', 0), (''GREEN'', 1)],
      COLORS_HSV =
        [(''RED'', Mat (0, 100, 100) (170, 100, 100), Mat (10, 255, 255) (180, 255, 255)),
         (''GREEN'', Vec 40 100 100, Vec 80 255 255)],
      in_range = demo_in_range,
      get_3d_coordinates_at_pixel = demo_get_3d,
      cv2_circle = (\<lambda>img c. img),
      cv2_putText = (\<lambda>img l c. img),
      cv2_rectangle = (\<lambda>img p q. img)\<rparr>"

text \<open>A 2 by 2 image with one red and one green pixel, both within the clipping
  distance, and histories of three samples.\<close>

definition demo_cam :: camera where
  "demo_cam =
     \<lparr>color_image = [[(0, 0, 0), (0, 0, 0)], [(0, 0, 255), (0, 255, 0)]],
      depth_image = [[500, 500], [500, 500]],
      camera_intrinsics = [],
      running_avg = [[(0, 0), (0, 0), (0, 0)], [(0, 0), (0, 0), (0, 0)]],
      crop = ((0, 0), (1, 1)),
      clipping_distance = 1400,
      prev_xyz = (0, 0, 0),
      update_colors = True,
      image_pub = [],
      tf_broadcaster = [],
      clock = 0\<rparr>"

text \<open>The same node looking at an all-background image.\<close>

definition dark_cam :: camera where
  "dark_cam = demo_cam\<lparr>color_image := [[(0, 0, 0), (0, 0, 0)], [(0, 0, 0), (0, 0, 0)]]\<rparr>"

text \<open>Two deprojections that return a fixed point: one with only \<open>X = -1\<close>, one with
  \<open>Y = Z = -1\<close> and another \<open>X\<close>.\<close>

definition sentinel_x_env :: env where
  "sentinel_x_env = demo_env\<lparr>get_3d_coordinates_at_pixel := (\<lambda>depth k x y f. (-1, 5, 7))\<rparr>"

definition sentinel_yz_env :: env where
  "sentinel_yz_env = demo_env\<lparr>get_3d_coordinates_at_pixel := (\<lambda>depth k x y f. (3, -1, -1))\<rparr>"

text \<open>The region of interest reduced to the first row, where no pixel has a color.\<close>

definition cropped_cam :: camera where
  "cropped_cam = demo_cam\<lparr>crop := ((0, 0), (1, 0))\<rparr>"

text \<open>Histories of two samples, an all-background image, and the Publish-Enable Flag
  off.\<close>

definition even_cam :: camera where
  "even_cam = dark_cam\<lparr>running_avg := [[(0, 0), (1, 1)], [(0, 0), (1, 1)]],
                       update_colors := False\<rparr>"

text \<open>Events that arrive while the flag is off: two ticks that both see the green
  pixel, and a new color image between them.\<close>

definition demo_events :: "event list" where
  "demo_events =
     [Tick, ColorMsg [[(0, 0, 0), (0, 0, 0)], [(0, 0, 0), (0, 255, 0)]], Tick]"

lemmas demo_defs =
  demo_env_def demo_cam_def dark_cam_def demo_in_range_def demo_get_3d_def cropped_cam_def
  even_cam_def

lemmas model_defs =
  timer_callback_def broadcast_color_def broadcast_color_frame_def find_color_centroid_def
  bg_removed_of_def np_shape_def broadcast_dim_def pick_def gate_def segment_def
  inRange_hsv_def mask_add_def np_any_def find_centroid_cropped_def on_pixels_def in_rect_def
  py_int_def median_at_def np_median_int_def np_median_def shift_history_def
  detect_illumination_def

section \<open>Facts about the single steps\<close>

lemma bcf_prev:
  "prev_xyz (broadcast_color_frame E b c x_c y_c s) =
     (let p = get_3d_coordinates_at_pixel E (depth_image s) (camera_intrinsics s) x_c y_c c
      in if fst p = -1 then prev_xyz s else p)"
  by (simp add: broadcast_color_frame_def Let_def split: prod.splits)

lemma bcf_tf:
  "tf_broadcaster (broadcast_color_frame E b c x_c y_c s) =
     tf_broadcaster s @
       [\<lparr>stamp = clock s, frame_id = b, child_frame_id = c,
         translation =
           (case prev_xyz (broadcast_color_frame E b c x_c y_c s) of (x, y, z) \<Rightarrow> (z, - x, - y)),
         rotation = (0, 0, 0, 1)\<rparr>]"
  by (simp add: broadcast_color_frame_def Let_def split: prod.splits)

lemma bcf_other:
  "running_avg (broadcast_color_frame E b c x_c y_c s) = running_avg s"
  "image_pub (broadcast_color_frame E b c x_c y_c s) = image_pub s"
  "update_colors (broadcast_color_frame E b c x_c y_c s) = update_colors s"
  "color_image (broadcast_color_frame E b c x_c y_c s) = color_image s"
  "depth_image (broadcast_color_frame E b c x_c y_c s) = depth_image s"
  "camera_intrinsics (broadcast_color_frame E b c x_c y_c s) = camera_intrinsics s"
  "crop (broadcast_color_frame E b c x_c y_c s) = crop s"
  "clipping_distance (broadcast_color_frame E b c x_c y_c s) = clipping_distance s"
  "clock (broadcast_color_frame E b c x_c y_c s) = clock s"
  by (simp_all add: broadcast_color_frame_def Let_def split: prod.splits)

lemma fcc_state:
  assumes "find_color_centroid E lo hi s = Inr (c, s1)"
  shows "s1 = s\<lparr>image_pub := image_pub s1\<rparr>"
  using assms
  by (auto simp: find_color_centroid_def Let_def split: sum.splits if_splits prod.splits)

lemma fcc_not_detected:
  assumes "find_color_centroid E lo hi s = Inr (c, s1)" "\<not> detected E s (n, lo, hi)"
  shows "c = (-1, -1) \<and> s1 = s"
  using assms
  by (auto simp: find_color_centroid_def detected_def color_mask_def Let_def
           split: sum.splits if_splits prod.splits)

lemma fcc_detected:
  assumes "find_color_centroid E lo hi s = Inr (c, s1)" "detected E s (n, lo, hi)"
  shows "\<exists>bg msk img. bg_removed_of (clipping_distance s) (depth_image s) (color_image s) = Inr bg
           \<and> segment E lo hi bg = Inr msk \<and> np_any msk
           \<and> annotate E (COLORS E) s bg = Inr img
           \<and> c = (py_int (fst (find_centroid_cropped msk (crop s))),
                  py_int (snd (find_centroid_cropped msk (crop s))))
           \<and> s1 = s\<lparr>image_pub := image_pub s @ [cv2_rectangle E img (fst (crop s)) (snd (crop s))]\<rparr>"
  using assms
  by (auto simp: find_color_centroid_def detected_def color_mask_def Let_def
           split: sum.splits if_splits prod.splits)

lemma shift_history_fields:
  assumes "shift_history k c s = Inr s'"
  shows "s' = s\<lparr>running_avg := (running_avg s)[k := tl (running_avg s ! k) @ [c]]\<rparr>"
    and "k < length (running_avg s)" and "running_avg s ! k \<noteq> []"
  using assms by (auto simp: shift_history_def split: if_splits)

lemma broadcast_color_Inr:
  assumes "broadcast_color E lo hi color s = Inr s'"
  obtains k c s1 s2 m where "map_of (COLORS E) color = Some k"
    and "find_color_centroid E lo hi s = Inr (c, s1)"
    and "(if fst c \<noteq> 0 \<and> snd c \<noteq> 0 \<and> update_colors s1
          then shift_history k c s1 else Inr s1) = Inr s2"
    and "median_at s2 k = Inr m"
    and "s' = broadcast_color_frame E ''camera_depth_frame'' (color @ ''_frame'')
                (fst m) (snd m) s2"
proof -
  from assms obtain k where k: "map_of (COLORS E) color = Some k"
    by (cases "map_of (COLORS E) color") (simp_all add: broadcast_color_def)
  from assms k obtain c s1 where f: "find_color_centroid E lo hi s = Inr (c, s1)"
    by (cases "find_color_centroid E lo hi s") (auto simp: broadcast_color_def)
  let ?u = "if fst c \<noteq> 0 \<and> snd c \<noteq> 0 \<and> update_colors s1
            then shift_history k c s1 else Inr s1"
  from assms k f obtain s2 where u: "?u = Inr s2"
    by (cases ?u)
       (simp_all add: broadcast_color_def split_beta split del: if_split cong: if_cong)
  from assms k f u obtain m where m: "median_at s2 k = Inr m"
    by (cases "median_at s2 k")
       (simp_all add: broadcast_color_def split_beta split del: if_split cong: if_cong)
  from assms k f u m
  have "s' = broadcast_color_frame E ''camera_depth_frame'' (color @ ''_frame'')
               (fst m) (snd m) s2"
    by (simp add: broadcast_color_def split_beta split del: if_split cong: if_cong)
  with k f u m that show thesis by blast
qed

section \<open>The not-yet-started guard\<close>

text \<open>
  Claim C8. If the color image buffer or the depth image buffer is still zero-sized
  when a timer tick fires, the tick is a no-op: the callback returns without raising
  and the state it returns is the state it was given, so no history is updated, no
  frame is broadcast and no filtered image is published.
\<close>

theorem timer_callback_not_started:
  assumes "length (color_image s) = 0 \<or> length (depth_image s) = 0"
  shows "timer_callback E s = Inr s"
  using assms by (simp add: timer_callback_def)

theorem timer_callback_not_started_witness:
  "(length (color_image (demo_cam\<lparr>color_image := []\<rparr>)) = 0
      \<or> length (depth_image (demo_cam\<lparr>color_image := []\<rparr>)) = 0)
   \<and> timer_callback demo_env (demo_cam\<lparr>color_image := []\<rparr>) = Inr (demo_cam\<lparr>color_image := []\<rparr>)"
  using timer_callback_not_started [of "demo_cam\<lparr>color_image := []\<rparr>" demo_env]
  by simp

section \<open>The shared fallback point\<close>

text \<open>
  Claim C5. When the deprojection returns the invalid sentinel, the broadcast reuses
  the last-known valid 3D point and leaves it as it is; when the deprojection is valid,
  the fallback is overwritten with the new point and the new point is used. The
  fallback is one field of the node, shared by all colors: a valid point of one child
  frame is what an invalid deprojection of another child frame falls back to. The
  fallback changes only on a valid deprojection.
\<close>

theorem fallback_shared_and_kept:
  "(let p = get_3d_coordinates_at_pixel E (depth_image s) (camera_intrinsics s) x_c y_c c;
        s' = broadcast_color_frame E b c x_c y_c s;
        q = get_3d_coordinates_at_pixel E (depth_image s') (camera_intrinsics s') x_d y_d d;
        s'' = broadcast_color_frame E b d x_d y_d s'
    in (fst p = -1 \<longrightarrow>
            prev_xyz s' = prev_xyz s \<and>
            translation (last (tf_broadcaster s')) =
              (case prev_xyz s of (x, y, z) \<Rightarrow> (z, - x, - y)))
       \<and> (fst p \<noteq> -1 \<longrightarrow>
            prev_xyz s' = p \<and>
            translation (last (tf_broadcaster s')) = (case p of (x, y, z) \<Rightarrow> (z, - x, - y)))
       \<and> (fst p \<noteq> -1 \<and> fst q = -1 \<longrightarrow>
            prev_xyz s'' = p \<and>
            translation (last (tf_broadcaster s'')) = (case p of (x, y, z) \<Rightarrow> (z, - x, - y)))
       \<and> (prev_xyz s' \<noteq> prev_xyz s \<longrightarrow> fst p \<noteq> -1))"
  by (simp add: bcf_tf bcf_prev bcf_other Let_def)

theorem fallback_shared_and_kept_witness:
  "fst (get_3d_coordinates_at_pixel demo_env (depth_image demo_cam) (camera_intrinsics demo_cam)
          1 1 ''RED_frame'') \<noteq> -1
   \<and> fst (get_3d_coordinates_at_pixel demo_env (depth_image demo_cam) (camera_intrinsics demo_cam)
          (-1) (-1) ''GREEN_frame'') = -1
   \<and> prev_xyz (broadcast_color_frame demo_env ''camera_depth_frame'' ''GREEN_frame'' (-1) (-1)
        (broadcast_color_frame demo_env ''camera_depth_frame'' ''RED_frame'' 1 1 demo_cam))
       = (500, 500, 500)
   \<and> translation (last (tf_broadcaster
        (broadcast_color_frame demo_env ''camera_depth_frame'' ''GREEN_frame'' (-1) (-1)
          (broadcast_color_frame demo_env ''camera_depth_frame'' ''RED_frame'' 1 1 demo_cam))))
       = (500, -500, -500)"
  using fallback_shared_and_kept [of demo_env demo_cam 1 1 "''RED_frame''"
           "''camera_depth_frame''" "-1" "-1" "''GREEN_frame''"]
  by (simp add: Let_def bcf_other demo_defs)

text \<open>
  Claim C10. The validity test reads the X coordinate only: the fallback is reused and
  left as it is exactly when the returned X is \<open>-1\<close>, whatever Y and Z are, and a
  point with another X overwrites the fallback and is broadcast even if its Y or Z is
  \<open>-1\<close>.
\<close>

theorem validity_test_reads_x_only:
  assumes "get_3d_coordinates_at_pixel E (depth_image s) (camera_intrinsics s) x_c y_c c = (x, y, z)"
  shows "prev_xyz (broadcast_color_frame E b c x_c y_c s) = (if x = -1 then prev_xyz s else (x, y, z))
       \<and> translation (last (tf_broadcaster (broadcast_color_frame E b c x_c y_c s))) =
           (if x = -1 then (case prev_xyz s of (x', y', z') \<Rightarrow> (z', - x', - y')) else (z, - x, - y))"
  using assms by (simp add: bcf_tf bcf_prev Let_def)


theorem validity_test_reads_x_only_witness:
  "get_3d_coordinates_at_pixel sentinel_x_env (depth_image demo_cam) (camera_intrinsics demo_cam)
      1 1 ''RED_frame'' = (-1, 5, 7)
   \<and> prev_xyz (broadcast_color_frame sentinel_x_env ''camera_depth_frame'' ''RED_frame'' 1 1 demo_cam)
       = (0, 0, 0)
   \<and> translation (last (tf_broadcaster
        (broadcast_color_frame sentinel_x_env ''camera_depth_frame'' ''RED_frame'' 1 1 demo_cam)))
       = (0, 0, 0)
   \<and> get_3d_coordinates_at_pixel sentinel_yz_env (depth_image demo_cam) (camera_intrinsics demo_cam)
      1 1 ''RED_frame'' = (3, -1, -1)
   \<and> prev_xyz (broadcast_color_frame sentinel_yz_env ''camera_depth_frame'' ''RED_frame'' 1 1 demo_cam)
       = (3, -1, -1)
   \<and> translation (last (tf_broadcaster
        (broadcast_color_frame sentinel_yz_env ''camera_depth_frame'' ''RED_frame'' 1 1 demo_cam)))
       = (-1, -3, 1)"
  using validity_test_reads_x_only [of sentinel_x_env demo_cam 1 1 "''RED_frame''" "-1" 5 7
           "''camera_depth_frame''"]
        validity_test_reads_x_only [of sentinel_yz_env demo_cam 1 1 "''RED_frame''" 3 "-1" "-1"
           "''camera_depth_frame''"]
  by (simp add: sentinel_x_env_def sentinel_yz_env_def demo_defs)

section \<open>The depth gate, pixel by pixel\<close>

lemma pick_id: "i < n \<Longrightarrow> pick n i = i"
  by (auto simp: pick_def)

lemma bg_removed_of_same_shape:
  assumes "np_shape depth = np_shape color"
  shows "bg_removed_of clip depth color =
     Inr (map (\<lambda>i. map (\<lambda>j. gate clip (depth ! i ! j) (color ! i ! j))
                 [0..<snd (np_shape color)]) [0..<fst (np_shape color)])"
  using assms
  by (cases "np_shape color") (simp add: bg_removed_of_def broadcast_dim_def pick_id)

text \<open>
  Claim C2. For two images of one shape, the depth-gated image exists, has that shape,
  and each of its pixels is zero when the depth \<open>d\<close> there satisfies
  \<open>d > clipping_distance\<close> or \<open>d \<le> 0\<close>, and is the pixel of the color image
  otherwise.
\<close>

theorem depth_gate_pixelwise:
  assumes "np_shape depth = np_shape color"
  shows "\<exists>bg. bg_removed_of clip depth color = Inr bg
           \<and> np_shape bg = np_shape color
           \<and> (\<forall>i < fst (np_shape color). \<forall>j < snd (np_shape color).
                 bg ! i ! j =
                   (if depth ! i ! j > clip \<or> depth ! i ! j \<le> 0 then (0, 0, 0)
                    else color ! i ! j))"
proof -
  let ?h = "fst (np_shape color)" and ?w = "snd (np_shape color)"
  let ?bg = "map (\<lambda>i. map (\<lambda>j. gate clip (depth ! i ! j) (color ! i ! j)) [0..<?w]) [0..<?h]"
  have 1: "bg_removed_of clip depth color = Inr ?bg"
    using assms by (rule bg_removed_of_same_shape)
  have 2: "np_shape ?bg = np_shape color"
  proof (cases color)
    case Nil
    then show ?thesis by (simp add: np_shape_def)
  next
    case (Cons r rs)
    have "[0..<Suc (length rs)] = 0 # [Suc 0..<Suc (length rs)]"
      by (rule upt_conv_Cons) simp
    with Cons show ?thesis by (simp add: np_shape_def del: upt_Suc)
  qed
  have 3: "\<forall>i < ?h. \<forall>j < ?w. ?bg ! i ! j =
             (if depth ! i ! j > clip \<or> depth ! i ! j \<le> 0 then (0, 0, 0) else color ! i ! j)"
    by (simp add: gate_def)
  from 1 2 3 show ?thesis by blast
qed

theorem depth_gate_pixelwise_witness:
  "np_shape [[500, 2000], [0, 1400 :: int]]
     = np_shape [[(0, 0, 255), (0, 255, 0)], [(0, 0, 255), (0, 255, 0 :: 8 word)] :: pixel list]
   \<and> bg_removed_of 1400 [[500, 2000], [0, 1400]]
        [[(0, 0, 255), (0, 255, 0)], [(0, 0, 255), (0, 255, 0)]]
     = Inr [[(0, 0, 255), (0, 0, 0)], [(0, 0, 0), (0, 255, 0)]]"
  using depth_gate_pixelwise [of "[[500, 2000], [0, 1400]]"
          "[[(0, 0, 255), (0, 255, 0)], [(0, 0, 255), (0, 255, 0)]]" 1400]
  by (simp add: np_shape_def bg_removed_of_def broadcast_dim_def pick_def gate_def upt_rec)

section \<open>The centroid search\<close>

lemma annotate_total:
  assumes "list_all (\<lambda>entry. has_history s (snd entry)) cs"
  shows "\<exists>img'. annotate E cs s img = Inr img'"
  using assms
proof (induction cs arbitrary: img)
  case Nil
  then show ?case by simp
next
  case (Cons e cs)
  obtain color k where e: "e = (color, k)" by (cases e)
  from Cons.prems e have "median_at s k = Inr (np_median_int (running_avg s ! k))"
    by (simp add: median_at_def has_history_def)
  moreover from Cons.prems have "list_all (\<lambda>entry. has_history s (snd entry)) cs" by simp
  ultimately show ?case using Cons.IH e by simp
qed

lemma py_int_minus_one: "py_int (- 1) = - 1"
  unfolding py_int_def by (simp add: ceiling_unique)

text \<open>
  Claim C3. When the mask of a color has no on pixel inside the rectangle, the centroid
  search returns \<open>(-1, -1)\<close>, also when the mask has on pixels outside the rectangle.
  (Every color of the table has a history, so the drawing loop does not raise.)
\<close>

theorem roi_without_on_pixels_not_found:
  assumes "color_mask E lo hi s = Inr msk"
    and "filter (in_rect (crop s)) (on_pixels msk) = []"
    and "list_all (\<lambda>entry. has_history s (snd entry)) (COLORS E)"
  shows "\<exists>s'. find_color_centroid E lo hi s = Inr ((-1, -1), s')"
proof -
  from assms(1) obtain bg where bg:
    "bg_removed_of (clipping_distance s) (depth_image s) (color_image s) = Inr bg"
    "segment E lo hi bg = Inr msk"
    by (auto simp: color_mask_def split: sum.splits)
  from assms(2) have c: "find_centroid_cropped msk (crop s) = (-1, -1)"
    by (simp add: find_centroid_cropped_def)
  from assms(3) obtain img where "annotate E (COLORS E) s bg = Inr img"
    using annotate_total by blast
  with bg c show ?thesis
    by (simp add: find_color_centroid_def py_int_minus_one)
qed

theorem roi_without_on_pixels_not_found_witness:
  "color_mask demo_env (Vec 40 100 100) (Vec 80 255 255) cropped_cam = Inr [[0, 0], [0, 255]]
   \<and> np_any [[0, 0], [0, 255]]
   \<and> filter (in_rect (crop cropped_cam)) (on_pixels [[0, 0], [0, 255]]) = []
   \<and> list_all (\<lambda>entry. has_history cropped_cam (snd entry)) (COLORS demo_env)
   \<and> (\<exists>s'. find_color_centroid demo_env (Vec 40 100 100) (Vec 80 255 255) cropped_cam
              = Inr ((-1, -1), s'))"
proof -
  have 1: "color_mask demo_env (Vec 40 100 100) (Vec 80 255 255) cropped_cam
             = Inr [[0, 0], [0, 255]]"
    by code_simp
  have 2: "filter (in_rect (crop cropped_cam)) (on_pixels [[0, 0], [0, 255]]) = []"
    by code_simp
  have 3: "list_all (\<lambda>entry. has_history cropped_cam (snd entry)) (COLORS demo_env)"
    by code_simp
  have 4: "np_any [[0, 0], [0, 255]]"
    by code_simp
  from 1 2 3 4 roi_without_on_pixels_not_found [OF 1 2 3] show ?thesis by simp
qed

section \<open>The history update\<close>

text \<open>
  Claim C1 says that the history of a color is shifted exactly when the centroid search
  returned a valid centroid and the Publish-Enable Flag is true, and is left unchanged
  when the search returned the not-found sentinel. The guard of \<open>broadcast_color\<close>
  compares both coordinates with 0, and the sentinel is \<open>(-1, -1)\<close>: on an
  all-background image, with the flag true, the search returns the sentinel and the
  sentinel is appended to the history of the color.
\<close>

theorem sentinel_enters_history:
  "find_color_centroid demo_env (Vec 40 100 100) (Vec 80 255 255) dark_cam
     = Inr ((-1, -1), dark_cam)
   \<and> update_colors dark_cam
   \<and> running_avg dark_cam = [[(0, 0), (0, 0), (0, 0)], [(0, 0), (0, 0), (0, 0)]]
   \<and> map_sum id running_avg
        (broadcast_color demo_env (Vec 40 100 100) (Vec 80 255 255) ''GREEN'' dark_cam)
     = Inr [[(0, 0), (0, 0), (0, 0)], [(0, 0), (0, 0), (-1, -1)]]"
  by (simp add: model_defs demo_defs upt_rec)

section \<open>The median\<close>

lemma sort_nth_mem: "i < length xs \<Longrightarrow> sort xs ! i \<in> set xs"
  by (metis length_sort nth_mem set_sort)

lemma np_median_bounds:
  assumes "xs \<noteq> []"
  shows "real_of_int (Min (set xs)) \<le> np_median xs \<and> np_median xs \<le> real_of_int (Max (set xs))"
proof -
  let ?n = "length xs"
  from assms have n: "0 < ?n" by simp
  have b: "Min (set xs) \<le> sort xs ! i \<and> sort xs ! i \<le> Max (set xs)" if "i < ?n" for i
    using sort_nth_mem [OF that] by simp
  from n have "?n div 2 < ?n" "?n div 2 - 1 < ?n" by arith+
  with b have "Min (set xs) \<le> sort xs ! (?n div 2)" "sort xs ! (?n div 2) \<le> Max (set xs)"
    "Min (set xs) \<le> sort xs ! (?n div 2 - 1)" "sort xs ! (?n div 2 - 1) \<le> Max (set xs)"
    by blast+
  then show ?thesis
    by (simp add: np_median_def Let_def)
qed

lemma py_int_bounds:
  assumes "real_of_int a \<le> r" "r \<le> real_of_int b"
  shows "a \<le> py_int r \<and> py_int r \<le> b"
  using assms by (auto simp: py_int_def le_floor_iff floor_le_iff ceiling_le_iff le_ceiling_iff)

lemma py_int_of_int: "py_int (real_of_int a) = a"
  by (simp add: py_int_def)

lemma np_median_odd: "odd (length xs) \<Longrightarrow> np_median xs = real_of_int (sort xs ! (length xs div 2))"
  by (simp add: np_median_def Let_def)

lemma median_at_Inr:
  assumes "median_at s k = Inr m"
  shows "k < length (running_avg s)" and "running_avg s ! k \<noteq> []"
    and "m = np_median_int (running_avg s ! k)"
  using assms by (auto simp: median_at_def split: if_splits)

text \<open>
  Claim C4, as amended. The smoothed centroid that a broadcast emits is, on each axis,
  the median of the current history (the history as the same call leaves it) cast to an
  integer by truncation towards zero. It is computed on every call, whether or not the
  history changed. Each coordinate lies between the minimum and the maximum of that
  coordinate over the current history, and equals the median itself when the history
  has an odd number of samples.
\<close>

theorem smoothed_centroid_is_truncated_median:
  assumes "broadcast_color E lo hi color s = Inr s'"
    and "map_of (COLORS E) color = Some k"
  shows "\<exists>s2. let xs = map fst (running_avg s' ! k); ys = map snd (running_avg s' ! k);
                 mx = py_int (np_median xs); my = py_int (np_median ys)
             in running_avg s2 = running_avg s' \<and> running_avg s' ! k \<noteq> []
              \<and> s' = broadcast_color_frame E ''camera_depth_frame'' (color @ ''_frame'') mx my s2
              \<and> Min (set xs) \<le> mx \<and> mx \<le> Max (set xs)
              \<and> Min (set ys) \<le> my \<and> my \<le> Max (set ys)
              \<and> (odd (length (running_avg s' ! k)) \<longrightarrow>
                    real_of_int mx = np_median xs \<and> real_of_int my = np_median ys)"
proof -
  from assms(1) obtain k' c s1 s2 m where
    k': "map_of (COLORS E) color = Some k'"
    and m: "median_at s2 k' = Inr m"
    and s': "s' = broadcast_color_frame E ''camera_depth_frame'' (color @ ''_frame'')
                    (fst m) (snd m) s2"
    by (rule broadcast_color_Inr)
  from k' assms(2) have kk: "k' = k" by simp
  let ?h = "running_avg s' ! k"
  from s' have r: "running_avg s2 = running_avg s'" by (simp add: bcf_other)
  from median_at_Inr [OF m] kk r
  have ne: "?h \<noteq> []" and mm: "m = np_median_int ?h" by simp_all
  let ?xs = "map fst ?h" and ?ys = "map snd ?h"
  from ne have nx: "?xs \<noteq> []" and ny: "?ys \<noteq> []" by simp_all
  have bx: "Min (set ?xs) \<le> py_int (np_median ?xs) \<and> py_int (np_median ?xs) \<le> Max (set ?xs)"
    using np_median_bounds [OF nx] by (intro py_int_bounds) simp_all
  have "Min (set ?ys) \<le> py_int (np_median ?ys) \<and> py_int (np_median ?ys) \<le> Max (set ?ys)"
    using np_median_bounds [OF ny] by (intro py_int_bounds) simp_all
  moreover have "odd (length ?h) \<longrightarrow>
      real_of_int (py_int (np_median ?xs)) = np_median ?xs
      \<and> real_of_int (py_int (np_median ?ys)) = np_median ?ys"
    by (simp add: np_median_odd py_int_of_int)
  moreover from s' mm
  have "s' = broadcast_color_frame E ''camera_depth_frame'' (color @ ''_frame'')
               (py_int (np_median ?xs)) (py_int (np_median ?ys)) s2"
    by (simp add: np_median_int_def)
  ultimately show ?thesis
    using r ne bx unfolding Let_def by blast
qed

theorem smoothed_centroid_is_truncated_median_witness:
  "map_of (COLORS demo_env) ''GREEN'' = Some 1
   \<and> (\<exists>s' s2. broadcast_color demo_env (Vec 40 100 100) (Vec 80 255 255) ''GREEN'' demo_cam = Inr s'
        \<and> (let xs = map fst (running_avg s' ! 1); ys = map snd (running_avg s' ! 1);
                mx = py_int (np_median xs); my = py_int (np_median ys)
            in running_avg s2 = running_avg s' \<and> running_avg s' ! 1 \<noteq> []
              \<and> s' = broadcast_color_frame demo_env ''camera_depth_frame'' (''GREEN'' @ ''_frame'')
                        mx my s2
              \<and> Min (set xs) \<le> mx \<and> mx \<le> Max (set xs)
              \<and> Min (set ys) \<le> my \<and> my \<le> Max (set ys)
              \<and> (odd (length (running_avg s' ! 1)) \<longrightarrow>
                    real_of_int mx = np_median xs \<and> real_of_int my = np_median ys)))"
proof -
  have m: "map_of (COLORS demo_env) ''GREEN'' = Some 1"
    by (simp add: demo_defs)
  have "case broadcast_color demo_env (Vec 40 100 100) (Vec 80 255 255) ''GREEN'' demo_cam of
          Inl e \<Rightarrow> False | Inr t \<Rightarrow> True"
    by code_simp
  then obtain s' where h:
    "broadcast_color demo_env (Vec 40 100 100) (Vec 80 255 255) ''GREEN'' demo_cam = Inr s'"
    by (auto split: sum.splits)
  from smoothed_centroid_is_truncated_median [OF h m] h m show ?thesis by blast
qed

theorem smoothed_centroid_not_median_counterexample:
  "broadcast_color demo_env (Vec 40 100 100) (Vec 80 255 255) ''GREEN'' even_cam
     = Inr (broadcast_color_frame demo_env ''camera_depth_frame'' ''GREEN_frame'' 0 0 even_cam)
   \<and> running_avg (broadcast_color_frame demo_env ''camera_depth_frame'' ''GREEN_frame'' 0 0
        even_cam) ! 1 = [(0, 0), (1, 1)]
   \<and> np_median (map fst [(0, 0), (1, 1)]) = 1 / 2
   \<and> np_median (map snd [(0, 0), (1, 1)]) = 1 / 2
   \<and> real_of_int 0 \<noteq> np_median (map fst [(0, 0), (1, 1)])"
  by code_simp

section \<open>One color of a tick\<close>

lemma segment_indep:
  "(\<exists>m. segment E lo hi img = Inr m) = (\<exists>m. segment E lo hi img' = Inr m)"
  by (auto simp: segment_def split: sum.splits if_splits)

lemma fcc_total:
  assumes "bg_removed_of (clipping_distance s) (depth_image s) (color_image s) = Inr bg"
    and "segment E lo hi [] = Inr m0"
    and "list_all (\<lambda>entry. has_history s (snd entry)) (COLORS E)"
  shows "\<exists>c s1. find_color_centroid E lo hi s = Inr (c, s1)"
proof -
  from assms(2) segment_indep [of E lo hi bg "[]"] obtain msk where
    msk: "segment E lo hi bg = Inr msk" by blast
  from assms(3) obtain img where "annotate E (COLORS E) s bg = Inr img"
    using annotate_total by blast
  with assms(1) msk show ?thesis
    by (simp add: find_color_centroid_def split_beta)
qed

lemma bc_fields:
  assumes "broadcast_color E lo hi color s = Inr s'"
  shows "color_image s' = color_image s" and "depth_image s' = depth_image s"
    and "clipping_distance s' = clipping_distance s" and "crop s' = crop s"
    and "update_colors s' = update_colors s" and "clock s' = clock s"
    and "camera_intrinsics s' = camera_intrinsics s"
proof -
  from assms obtain k c s1 s2 m where
    f: "find_color_centroid E lo hi s = Inr (c, s1)"
    and u: "(if fst c \<noteq> 0 \<and> snd c \<noteq> 0 \<and> update_colors s1
             then shift_history k c s1 else Inr s1) = Inr s2"
    and s': "s' = broadcast_color_frame E ''camera_depth_frame'' (color @ ''_frame'')
                    (fst m) (snd m) s2"
    by (rule broadcast_color_Inr)
  note s1 = fcc_state [OF f]
  from u have s2: "s2 = s1 \<or> s2 = s1\<lparr>running_avg := (running_avg s1)[k := tl (running_avg s1 ! k) @ [c]]\<rparr>"
    by (auto simp: shift_history_def split: if_splits)
  have e1: "color_image s1 = color_image s" "depth_image s1 = depth_image s"
    "clipping_distance s1 = clipping_distance s" "crop s1 = crop s"
    "update_colors s1 = update_colors s" "clock s1 = clock s"
    "camera_intrinsics s1 = camera_intrinsics s"
    by (subst s1, simp)+
  from s2 e1 have e2: "color_image s2 = color_image s" "depth_image s2 = depth_image s"
    "clipping_distance s2 = clipping_distance s" "crop s2 = crop s"
    "update_colors s2 = update_colors s" "clock s2 = clock s"
    "camera_intrinsics s2 = camera_intrinsics s"
    by auto
  from s' e2 show "color_image s' = color_image s" and "depth_image s' = depth_image s"
    and "clipping_distance s' = clipping_distance s" and "crop s' = crop s"
    and "update_colors s' = update_colors s" and "clock s' = clock s"
    and "camera_intrinsics s' = camera_intrinsics s"
    by (simp_all add: bcf_other)
qed

lemma bc_running_avg:
  assumes "broadcast_color E lo hi color s = Inr s'"
  shows "\<exists>k c s1. map_of (COLORS E) color = Some k
           \<and> find_color_centroid E lo hi s = Inr (c, s1)
           \<and> has_history s' k
           \<and> running_avg s' =
               (if fst c \<noteq> 0 \<and> snd c \<noteq> 0 \<and> update_colors s
                then (running_avg s)[k := tl (running_avg s ! k) @ [c]] else running_avg s)"
proof -
  from assms obtain k c s1 s2 m where
    k: "map_of (COLORS E) color = Some k"
    and f: "find_color_centroid E lo hi s = Inr (c, s1)"
    and u: "(if fst c \<noteq> 0 \<and> snd c \<noteq> 0 \<and> update_colors s1
             then shift_history k c s1 else Inr s1) = Inr s2"
    and m: "median_at s2 k = Inr m"
    and s': "s' = broadcast_color_frame E ''camera_depth_frame'' (color @ ''_frame'')
                    (fst m) (snd m) s2"
    by (rule broadcast_color_Inr)
  note s1 = fcc_state [OF f]
  have r1: "running_avg s1 = running_avg s" and u1: "update_colors s1 = update_colors s"
    by (subst s1, simp)+
  from u r1 u1 have "running_avg s2 =
      (if fst c \<noteq> 0 \<and> snd c \<noteq> 0 \<and> update_colors s
       then (running_avg s)[k := tl (running_avg s ! k) @ [c]] else running_avg s)"
    by (auto simp: shift_history_def split: if_splits)
  moreover from s' have "running_avg s' = running_avg s2" by (simp add: bcf_other)
  moreover from median_at_Inr(1,2) [OF m] have "has_history s2 k"
    by (simp add: has_history_def)
  ultimately show ?thesis using k f by (auto simp: has_history_def)
qed

lemma bc_frozen:
  assumes "broadcast_color E lo hi color s = Inr s'" and "\<not> update_colors s"
  shows "running_avg s' = running_avg s"
  using bc_running_avg [OF assms(1)] assms(2) by auto

lemma bc_has_history:
  assumes "broadcast_color E lo hi color s = Inr s'" and "has_history s j"
  shows "has_history s' j"
proof -
  from bc_running_avg [OF assms(1)] obtain k c where
    r: "running_avg s' =
          (if fst c \<noteq> 0 \<and> snd c \<noteq> 0 \<and> update_colors s
           then (running_avg s)[k := tl (running_avg s ! k) @ [c]] else running_avg s)"
    by blast
  with assms(2) show ?thesis
    by (cases "j = k") (auto simp: has_history_def)
qed

lemma bc_image_pub:
  assumes "broadcast_color E lo hi color s = Inr s'"
  shows "length (image_pub s') =
           length (image_pub s) + (if detected E s (color, lo, hi) then 1 else 0)"
proof -
  from assms obtain k c s1 s2 m where
    f: "find_color_centroid E lo hi s = Inr (c, s1)"
    and u: "(if fst c \<noteq> 0 \<and> snd c \<noteq> 0 \<and> update_colors s1
             then shift_history k c s1 else Inr s1) = Inr s2"
    and s': "s' = broadcast_color_frame E ''camera_depth_frame'' (color @ ''_frame'')
                    (fst m) (snd m) s2"
    by (rule broadcast_color_Inr)
  from u have "image_pub s2 = image_pub s1"
    by (auto simp: shift_history_def split: if_splits)
  with s' have e: "image_pub s' = image_pub s1" by (simp add: bcf_other)
  show ?thesis
  proof (cases "detected E s (color, lo, hi)")
    case True
    from fcc_detected [OF f True] e show ?thesis using True by auto
  next
    case False
    from fcc_not_detected [OF f False] e show ?thesis using False by simp
  qed
qed

lemma bc_tf:
  assumes "broadcast_color E lo hi color s = Inr s'"
  shows "tf_broadcaster s' = tf_broadcaster s @
           [\<lparr>stamp = clock s, frame_id = ''camera_depth_frame'',
             child_frame_id = color @ ''_frame'',
             translation = (case prev_xyz s' of (x, y, z) \<Rightarrow> (z, - x, - y)),
             rotation = (0, 0, 0, 1)\<rparr>]"
proof -
  from assms obtain k c s1 s2 m where
    f: "find_color_centroid E lo hi s = Inr (c, s1)"
    and u: "(if fst c \<noteq> 0 \<and> snd c \<noteq> 0 \<and> update_colors s1
             then shift_history k c s1 else Inr s1) = Inr s2"
    and s': "s' = broadcast_color_frame E ''camera_depth_frame'' (color @ ''_frame'')
                    (fst m) (snd m) s2"
    by (rule broadcast_color_Inr)
  note s1 = fcc_state [OF f]
  have "tf_broadcaster s1 = tf_broadcaster s" "clock s1 = clock s"
    by (subst s1, simp)+
  with u have "tf_broadcaster s2 = tf_broadcaster s" "clock s2 = clock s"
    by (auto simp: shift_history_def split: if_splits)
  with s' show ?thesis by (simp add: bcf_tf)
qed

lemma bc_total:
  assumes "bg_removed_of (clipping_distance s) (depth_image s) (color_image s) = Inr bg"
    and "entry_ok E s (color, lo, hi)"
    and "list_all (\<lambda>entry. has_history s (snd entry)) (COLORS E)"
  shows "\<exists>s'. broadcast_color E lo hi color s = Inr s'"
proof -
  from assms(2) obtain m0 k where
    seg: "segment E lo hi [] = Inr m0" and k: "map_of (COLORS E) color = Some k"
    and h: "has_history s k"
    by (auto simp: entry_ok_def split: sum.splits option.splits)
  from fcc_total [OF assms(1) seg assms(3)] obtain c s1 where
    f: "find_color_centroid E lo hi s = Inr (c, s1)" by blast
  note s1 = fcc_state [OF f]
  have r1: "running_avg s1 = running_avg s" by (subst s1, simp)
  with h have h1: "has_history s1 k" by (simp add: has_history_def)
  let ?u = "if fst c \<noteq> 0 \<and> snd c \<noteq> 0 \<and> update_colors s1
            then shift_history k c s1 else Inr s1"
  have "\<exists>s2. ?u = Inr s2 \<and> has_history s2 k"
  proof (cases "fst c \<noteq> 0 \<and> snd c \<noteq> 0 \<and> update_colors s1")
    case True
    with h1 show ?thesis by (simp add: shift_history_def has_history_def)
  next
    case False
    with h1 show ?thesis by auto
  qed
  then obtain s2 where u: "?u = Inr s2" and h2: "has_history s2 k" by blast
  from h2 have m: "median_at s2 k = Inr (np_median_int (running_avg s2 ! k))"
    by (simp add: median_at_def has_history_def)
  from k f u m show ?thesis
    by (cases c) (simp add: broadcast_color_def split del: if_split cong: if_cong)
qed

section \<open>The loop over the color table\<close>

lemma detected_cong:
  assumes "color_image s' = color_image s" "depth_image s' = depth_image s"
    "clipping_distance s' = clipping_distance s"
  shows "detected E s' e = detected E s e"
  using assms by (simp add: detected_def color_mask_def)

lemma loop_fields:
  assumes "colors_loop E cs s = Inr s'"
  shows "color_image s' = color_image s \<and> depth_image s' = depth_image s
       \<and> clipping_distance s' = clipping_distance s \<and> update_colors s' = update_colors s
       \<and> clock s' = clock s"
  using assms
proof (induction cs arbitrary: s)
  case Nil
  then show ?case by simp
next
  case (Cons e cs)
  obtain color lo hi where e: "e = (color, lo, hi)" by (cases e)
  from Cons.prems e obtain s1 where
    b: "broadcast_color E lo hi color s = Inr s1" and l: "colors_loop E cs s1 = Inr s'"
    by (auto simp: detect_illumination_def split: sum.splits)
  from Cons.IH [OF l] bc_fields [OF b] show ?case by simp
qed

lemma loop_image_pub:
  assumes "colors_loop E cs s = Inr s'"
  shows "length (image_pub s') = length (image_pub s) + length (filter (detected E s) cs)"
  using assms
proof (induction cs arbitrary: s)
  case Nil
  then show ?case by simp
next
  case (Cons e cs)
  obtain color lo hi where e: "e = (color, lo, hi)" by (cases e)
  from Cons.prems e obtain s1 where
    b: "broadcast_color E lo hi color s = Inr s1" and l: "colors_loop E cs s1 = Inr s'"
    by (auto simp: detect_illumination_def split: sum.splits)
  have "detected E s1 = detected E s"
    using bc_fields(1,2,3) [OF b] by (intro ext detected_cong)
  with Cons.IH [OF l] bc_image_pub [OF b] e show ?case by simp
qed

lemma loop_tf:
  assumes "colors_loop E cs s = Inr s'"
  shows "\<exists>ts. tf_broadcaster s' = tf_broadcaster s @ ts
           \<and> map child_frame_id ts = map (\<lambda>entry. fst entry @ ''_frame'') cs
           \<and> list_all (\<lambda>t. frame_id t = ''camera_depth_frame'' \<and> rotation t = (0, 0, 0, 1)) ts"
  using assms
proof (induction cs arbitrary: s)
  case Nil
  then show ?case by simp
next
  case (Cons e cs)
  obtain color lo hi where e: "e = (color, lo, hi)" by (cases e)
  from Cons.prems e obtain s1 where
    b: "broadcast_color E lo hi color s = Inr s1" and l: "colors_loop E cs s1 = Inr s'"
    by (auto simp: detect_illumination_def split: sum.splits)
  from Cons.IH [OF l] obtain ts where
    ts: "tf_broadcaster s' = tf_broadcaster s1 @ ts"
      "map child_frame_id ts = map (\<lambda>entry. fst entry @ ''_frame'') cs"
      "list_all (\<lambda>t. frame_id t = ''camera_depth_frame'' \<and> rotation t = (0, 0, 0, 1)) ts"
    by blast
  let ?t = "\<lparr>stamp = clock s, frame_id = ''camera_depth_frame'',
             child_frame_id = color @ ''_frame'',
             translation = (case prev_xyz s1 of (x, y, z) \<Rightarrow> (z, - x, - y)),
             rotation = (0, 0, 0, 1)\<rparr>"
  from bc_tf [OF b] ts(1) have "tf_broadcaster s' = tf_broadcaster s @ (?t # ts)" by simp
  moreover from ts(2) e have
    "map child_frame_id (?t # ts) = map (\<lambda>entry. fst entry @ ''_frame'') (e # cs)" by simp
  moreover from ts(3) have
    "list_all (\<lambda>t. frame_id t = ''camera_depth_frame'' \<and> rotation t = (0, 0, 0, 1)) (?t # ts)"
    by simp
  ultimately show ?case by blast
qed

lemma entry_ok_mono:
  assumes "entry_ok E s e" and "\<And>j. has_history s j \<Longrightarrow> has_history s' j"
  shows "entry_ok E s' e"
  using assms by (auto simp: entry_ok_def split: sum.splits option.splits)

lemma loop_total:
  assumes "bg_removed_of (clipping_distance s) (depth_image s) (color_image s) = Inr bg"
    and "list_all (entry_ok E s) cs"
    and "list_all (\<lambda>entry. has_history s (snd entry)) (COLORS E)"
  shows "\<exists>s'. colors_loop E cs s = Inr s'"
  using assms
proof (induction cs arbitrary: s)
  case Nil
  then show ?case by simp
next
  case (Cons e cs)
  obtain color lo hi where e: "e = (color, lo, hi)" by (cases e)
  from Cons.prems(2) e have ok: "entry_ok E s (color, lo, hi)" and rest: "list_all (entry_ok E s) cs"
    by simp_all
  from bc_total [OF Cons.prems(1) ok Cons.prems(3)] obtain s1 where
    b: "broadcast_color E lo hi color s = Inr s1" by blast
  have mono: "has_history s1 j" if "has_history s j" for j
    using bc_has_history [OF b that] .
  from bc_fields(1,2,3) [OF b] Cons.prems(1)
  have 1: "bg_removed_of (clipping_distance s1) (depth_image s1) (color_image s1) = Inr bg"
    by simp
  from rest have 2: "list_all (entry_ok E s1) cs"
    by (auto simp: list_all_iff intro: entry_ok_mono mono)
  from Cons.prems(3) have 3: "list_all (\<lambda>entry. has_history s1 (snd entry)) (COLORS E)"
    by (auto simp: list_all_iff intro: mono)
  from Cons.IH [OF 1 2 3] b e show ?case
    by (simp add: detect_illumination_def)
qed

lemma bcf_image_pub:
  "(broadcast_color_frame E b c x y s)\<lparr>image_pub := P\<rparr>
     = broadcast_color_frame E b c x y (s\<lparr>image_pub := P\<rparr>)"
  by (simp add: broadcast_color_frame_def Let_def split_beta)

lemma bc_frozen_eq:
  assumes "broadcast_color E lo hi color s = Inr s'" and "\<not> update_colors s"
    and "map_of (COLORS E) color = Some k"
  shows "s'\<lparr>image_pub := P\<rparr> =
           broadcast_color_frame E ''camera_depth_frame'' (color @ ''_frame'')
             (fst (np_median_int (running_avg s ! k))) (snd (np_median_int (running_avg s ! k)))
             (s\<lparr>image_pub := P\<rparr>)"
proof -
  from assms(1) obtain k' c s1 s2 m where
    k': "map_of (COLORS E) color = Some k'"
    and f: "find_color_centroid E lo hi s = Inr (c, s1)"
    and u: "(if fst c \<noteq> 0 \<and> snd c \<noteq> 0 \<and> update_colors s1
             then shift_history k' c s1 else Inr s1) = Inr s2"
    and m: "median_at s2 k' = Inr m"
    and s': "s' = broadcast_color_frame E ''camera_depth_frame'' (color @ ''_frame'')
                    (fst m) (snd m) s2"
    by (rule broadcast_color_Inr)
  from k' assms(3) have kk: "k' = k" by simp
  note s1 = fcc_state [OF f]
  have u1: "update_colors s1 = update_colors s" by (subst s1, simp)
  with u assms(2) have s2: "s2 = s1" by simp
  have p: "s1\<lparr>image_pub := P\<rparr> = s\<lparr>image_pub := P\<rparr>" by (subst s1, simp)
  have r: "running_avg s1 = running_avg s" by (subst s1, simp)
  from median_at_Inr(3) [OF m] s2 r kk have mm: "m = np_median_int (running_avg s ! k)" by simp
  from s' s2 mm p show ?thesis by (simp add: bcf_image_pub)
qed

lemma loop_frozen:
  assumes "colors_loop E cs s = Inr s'" and "\<not> update_colors s"
  shows "running_avg s' = running_avg s
       \<and> frozen_broadcast E cs (s\<lparr>image_pub := P\<rparr>) = s'\<lparr>image_pub := P\<rparr>"
  using assms
proof (induction cs arbitrary: s)
  case Nil
  then show ?case by simp
next
  case (Cons e cs)
  obtain color lo hi where e: "e = (color, lo, hi)" by (cases e)
  from Cons.prems e obtain s1 where
    b: "broadcast_color E lo hi color s = Inr s1" and l: "colors_loop E cs s1 = Inr s'"
    by (auto simp: detect_illumination_def split: sum.splits)
  from bc_running_avg [OF b] obtain k where k: "map_of (COLORS E) color = Some k" by blast
  from bc_fields(5) [OF b] Cons.prems(2) have f1: "\<not> update_colors s1" by simp
  note r1 = bc_frozen [OF b Cons.prems(2)]
  from Cons.IH [OF l f1] have
    ih: "running_avg s' = running_avg s1"
        "frozen_broadcast E cs (s1\<lparr>image_pub := P\<rparr>) = s'\<lparr>image_pub := P\<rparr>"
    by simp_all
  from bc_frozen_eq [OF b Cons.prems(2) k, of P] ih(2) e k
  have "frozen_broadcast E (e # cs) (s\<lparr>image_pub := P\<rparr>) = s'\<lparr>image_pub := P\<rparr>"
    by simp
  with ih(1) r1 show ?case by simp
qed

section \<open>Whole ticks\<close>

lemma tick_total:
  assumes "tick_ok E s"
  shows "\<exists>s'. timer_callback E s = Inr s'"
proof -
  from assms obtain bg where
    "bg_removed_of (clipping_distance s) (depth_image s) (color_image s) = Inr bg"
    by (auto simp: tick_ok_def split: sum.splits)
  moreover from assms have "list_all (entry_ok E s) (COLORS_HSV E)"
    "list_all (\<lambda>entry. has_history s (snd entry)) (COLORS E)"
    by (simp_all add: tick_ok_def)
  ultimately have "\<exists>s'. colors_loop E (COLORS_HSV E) s = Inr s'"
    by (rule loop_total)
  then show ?thesis by (simp add: timer_callback_def)
qed

lemma tick_loop:
  assumes "timer_callback E s = Inr s'" "color_image s \<noteq> []" "depth_image s \<noteq> []"
  shows "colors_loop E (COLORS_HSV E) s = Inr s'"
  using assms by (simp add: timer_callback_def)

text \<open>
  Claim C9, as amended. On a tick with both images received, the filtered image is
  published once for each entry of the color table whose mask is non-empty: as many
  times per tick as colors are seen, not once per tick. What one centroid search
  publishes is the depth-gated image with every smoothed centroid circled and labeled
  and the rectangle drawn.
\<close>

theorem filtered_image_per_detected_color:
  "(tick_ok E s \<and> color_image s \<noteq> [] \<and> depth_image s \<noteq> [] \<longrightarrow>
      (\<exists>s'. timer_callback E s = Inr s'
         \<and> length (image_pub s') =
             length (image_pub s) + length (filter (detected E s) (COLORS_HSV E))))
   \<and> (detected E t (n, lo, hi) \<and> find_color_centroid E lo hi t = Inr (c, t') \<longrightarrow>
        (\<exists>bg img. bg_removed_of (clipping_distance t) (depth_image t) (color_image t) = Inr bg
           \<and> annotate E (COLORS E) t bg = Inr img
           \<and> image_pub t' = image_pub t @ [cv2_rectangle E img (fst (crop t)) (snd (crop t))]))"
proof (intro conjI impI)
  assume a: "tick_ok E s \<and> color_image s \<noteq> [] \<and> depth_image s \<noteq> []"
  then obtain s' where t: "timer_callback E s = Inr s'" using tick_total by blast
  with a have "colors_loop E (COLORS_HSV E) s = Inr s'" by (simp add: tick_loop)
  from loop_image_pub [OF this] t
  show "\<exists>s'. timer_callback E s = Inr s'
         \<and> length (image_pub s') =
             length (image_pub s) + length (filter (detected E s) (COLORS_HSV E))"
    by blast
next
  assume "detected E t (n, lo, hi) \<and> find_color_centroid E lo hi t = Inr (c, t')"
  then have d: "detected E t (n, lo, hi)" and f: "find_color_centroid E lo hi t = Inr (c, t')"
    by simp_all
  from fcc_detected [OF f d]
  show "\<exists>bg img. bg_removed_of (clipping_distance t) (depth_image t) (color_image t) = Inr bg
           \<and> annotate E (COLORS E) t bg = Inr img
           \<and> image_pub t' = image_pub t @ [cv2_rectangle E img (fst (crop t)) (snd (crop t))]"
    by auto
qed

theorem filtered_image_once_per_tick_counterexample:
  "length (image_pub demo_cam) = 0
   \<and> map_sum id (\<lambda>t. length (image_pub t)) (timer_callback demo_env demo_cam) = Inr 2
   \<and> length (image_pub dark_cam) = 0
   \<and> map_sum id (\<lambda>t. length (image_pub t)) (timer_callback demo_env dark_cam) = Inr 0"
  by code_simp

theorem filtered_image_per_detected_color_witness:
  "tick_ok demo_env demo_cam \<and> color_image demo_cam \<noteq> [] \<and> depth_image demo_cam \<noteq> []
   \<and> length (filter (detected demo_env demo_cam) (COLORS_HSV demo_env)) = 2
   \<and> (\<exists>s'. timer_callback demo_env demo_cam = Inr s'
         \<and> length (image_pub s') = length (image_pub demo_cam) + 2)
   \<and> detected demo_env demo_cam (''GREEN'', Vec 40 100 100, Vec 80 255 255)
   \<and> (\<exists>c t'. find_color_centroid demo_env (Vec 40 100 100) (Vec 80 255 255) demo_cam = Inr (c, t')
         \<and> (\<exists>bg img. bg_removed_of (clipping_distance demo_cam) (depth_image demo_cam)
                         (color_image demo_cam) = Inr bg
               \<and> annotate demo_env (COLORS demo_env) demo_cam bg = Inr img
               \<and> image_pub t' = image_pub demo_cam @
                   [cv2_rectangle demo_env img (fst (crop demo_cam)) (snd (crop demo_cam))]))"
proof -
  have 1: "tick_ok demo_env demo_cam \<and> color_image demo_cam \<noteq> [] \<and> depth_image demo_cam \<noteq> []"
    by code_simp
  have 2: "length (filter (detected demo_env demo_cam) (COLORS_HSV demo_env)) = 2"
    by code_simp
  have 3: "detected demo_env demo_cam (''GREEN'', Vec 40 100 100, Vec 80 255 255)"
    by code_simp
  have "case find_color_centroid demo_env (Vec 40 100 100) (Vec 80 255 255) demo_cam of
          Inl e \<Rightarrow> False | Inr r \<Rightarrow> True"
    by code_simp
  then obtain c t' where 4:
    "find_color_centroid demo_env (Vec 40 100 100) (Vec 80 255 255) demo_cam = Inr (c, t')"
    by (auto split: sum.splits)
  note th = filtered_image_per_detected_color
    [of demo_env demo_cam demo_cam "''GREEN''" "Vec 40 100 100" "Vec 80 255 255" c t']
  from th 1 2 have a: "\<exists>s'. timer_callback demo_env demo_cam = Inr s'
         \<and> length (image_pub s') = length (image_pub demo_cam) + 2"
    by simp
  from th 3 4 have b: "\<exists>bg img. bg_removed_of (clipping_distance demo_cam) (depth_image demo_cam)
                         (color_image demo_cam) = Inr bg
               \<and> annotate demo_env (COLORS demo_env) demo_cam bg = Inr img
               \<and> image_pub t' = image_pub demo_cam @
                   [cv2_rectangle demo_env img (fst (crop demo_cam)) (snd (crop demo_cam))]"
    by blast
  from 1 2 3 4 a b show ?thesis by blast
qed

section \<open>The broadcast transform\<close>

text \<open>
  Claim C7. The transform broadcast for a color goes from the base frame
  \<open>camera_depth_frame\<close> to the child frame \<open><color>_frame\<close>, carries the translation
  \<open>(Z, -X, -Y)\<close> for the camera-optical point \<open>(X, Y, Z)\<close> that is used (the deprojected
  point, or the fallback when the deprojection is invalid), and has the identity
  rotation quaternion. On a tick with both images received, one such transform is sent
  for every color of the table, in the order of the table.
\<close>

theorem color_frame_transform:
  "(let p = get_3d_coordinates_at_pixel E (depth_image s) (camera_intrinsics s) x_c y_c c;
        (X, Y, Z) = (if fst p = -1 then prev_xyz s else p)
    in tf_broadcaster (broadcast_color_frame E b c x_c y_c s) =
         tf_broadcaster s @
           [\<lparr>stamp = clock s, frame_id = b, child_frame_id = c,
             translation = (Z, - X, - Y), rotation = (0, 0, 0, 1)\<rparr>])
   \<and> (broadcast_color E lo hi color s = Inr s1 \<longrightarrow>
        tf_broadcaster s1 =
          tf_broadcaster s @
            [\<lparr>stamp = clock s, frame_id = ''camera_depth_frame'',
              child_frame_id = color @ ''_frame'',
              translation = (case prev_xyz s1 of (X, Y, Z) \<Rightarrow> (Z, - X, - Y)),
              rotation = (0, 0, 0, 1)\<rparr>])
   \<and> (tick_ok E s \<and> color_image s \<noteq> [] \<and> depth_image s \<noteq> [] \<longrightarrow>
        (\<exists>s' ts. timer_callback E s = Inr s'
           \<and> tf_broadcaster s' = tf_broadcaster s @ ts
           \<and> map child_frame_id ts = map (\<lambda>entry. fst entry @ ''_frame'') (COLORS_HSV E)
           \<and> list_all (\<lambda>t. frame_id t = ''camera_depth_frame'' \<and> rotation t = (0, 0, 0, 1)) ts))"
proof (intro conjI impI)
  show "let p = get_3d_coordinates_at_pixel E (depth_image s) (camera_intrinsics s) x_c y_c c;
        (X, Y, Z) = (if fst p = -1 then prev_xyz s else p)
    in tf_broadcaster (broadcast_color_frame E b c x_c y_c s) =
         tf_broadcaster s @
           [\<lparr>stamp = clock s, frame_id = b, child_frame_id = c,
             translation = (Z, - X, - Y), rotation = (0, 0, 0, 1)\<rparr>]"
    by (simp add: bcf_tf bcf_prev Let_def split_beta)
next
  assume "broadcast_color E lo hi color s = Inr s1"
  then show "tf_broadcaster s1 =
          tf_broadcaster s @
            [\<lparr>stamp = clock s, frame_id = ''camera_depth_frame'',
              child_frame_id = color @ ''_frame'',
              translation = (case prev_xyz s1 of (X, Y, Z) \<Rightarrow> (Z, - X, - Y)),
              rotation = (0, 0, 0, 1)\<rparr>]"
    by (rule bc_tf)
next
  assume a: "tick_ok E s \<and> color_image s \<noteq> [] \<and> depth_image s \<noteq> []"
  then obtain s' where t: "timer_callback E s = Inr s'" using tick_total by blast
  with a have "colors_loop E (COLORS_HSV E) s = Inr s'" by (simp add: tick_loop)
  from loop_tf [OF this] t
  show "\<exists>s' ts. timer_callback E s = Inr s'
           \<and> tf_broadcaster s' = tf_broadcaster s @ ts
           \<and> map child_frame_id ts = map (\<lambda>entry. fst entry @ ''_frame'') (COLORS_HSV E)
           \<and> list_all (\<lambda>t. frame_id t = ''camera_depth_frame'' \<and> rotation t = (0, 0, 0, 1)) ts"
    by blast
qed

theorem color_frame_transform_witness:
  "tf_broadcaster (broadcast_color_frame demo_env ''camera_depth_frame'' ''GREEN_frame'' 1 1
      demo_cam)
     = [\<lparr>stamp = 0, frame_id = ''camera_depth_frame'', child_frame_id = ''GREEN_frame'',
         translation = (500, - 500, - 500), rotation = (0, 0, 0, 1)\<rparr>]
   \<and> tick_ok demo_env demo_cam \<and> color_image demo_cam \<noteq> [] \<and> depth_image demo_cam \<noteq> []
   \<and> tf_broadcaster demo_cam = []
   \<and> (\<exists>s' ts. timer_callback demo_env demo_cam = Inr s'
         \<and> tf_broadcaster s' = ts
         \<and> map child_frame_id ts = [''RED_frame'', ''GREEN_frame'']
         \<and> list_all (\<lambda>t. frame_id t = ''camera_depth_frame'' \<and> rotation t = (0, 0, 0, 1)) ts)"
proof -
  have 1: "tick_ok demo_env demo_cam \<and> color_image demo_cam \<noteq> [] \<and> depth_image demo_cam \<noteq> []"
    by code_simp
  have 2: "tf_broadcaster demo_cam = []" by code_simp
  have 3: "get_3d_coordinates_at_pixel demo_env (depth_image demo_cam)
             (camera_intrinsics demo_cam) 1 1 ''GREEN_frame'' = (500, 500, 500)"
    by (simp add: demo_defs)
  have 4: "clock demo_cam = 0" by code_simp
  have 5: "map (\<lambda>entry. fst entry @ ''_frame'') (COLORS_HSV demo_env)
             = [''RED_frame'', ''GREEN_frame'']"
    by (simp add: demo_defs)
  note th = color_frame_transform [of demo_env demo_cam 1 1 "''GREEN_frame''"
              "''camera_depth_frame''"]
  from th 2 3 4 have a:
    "tf_broadcaster (broadcast_color_frame demo_env ''camera_depth_frame'' ''GREEN_frame'' 1 1
        demo_cam)
     = [\<lparr>stamp = 0, frame_id = ''camera_depth_frame'', child_frame_id = ''GREEN_frame'',
         translation = (500, - 500, - 500), rotation = (0, 0, 0, 1)\<rparr>]"
    by (simp add: Let_def)
  from th 1 2 5 have b: "\<exists>s' ts. timer_callback demo_env demo_cam = Inr s'
         \<and> tf_broadcaster s' = ts
         \<and> map child_frame_id ts = [''RED_frame'', ''GREEN_frame'']
         \<and> list_all (\<lambda>t. frame_id t = ''camera_depth_frame'' \<and> rotation t = (0, 0, 0, 1)) ts"
    by simp
  from a b 1 2 show ?thesis by blast
qed

section \<open>The freeze\<close>

lemma run_append:
  "run E (xs @ ys) s = (case run E xs s of Inl err \<Rightarrow> Inl err | Inr s' \<Rightarrow> run E ys s')"
  by (induction xs arbitrary: s) (auto split: sum.splits)

lemma tick_frozen:
  assumes "timer_callback E s = Inr s'" and "\<not> update_colors s"
  shows "running_avg s' = running_avg s \<and> \<not> update_colors s'"
proof (cases "length (color_image s) = 0 \<or> length (depth_image s) = 0")
  case True
  with assms show ?thesis by (simp add: timer_callback_def)
next
  case False
  with assms(1) have l: "colors_loop E (COLORS_HSV E) s = Inr s'"
    by (simp add: timer_callback_def)
  from loop_frozen [OF l assms(2)] loop_fields [OF l] assms(2) show ?thesis by simp
qed

lemma handle_frozen:
  assumes "handle E e s = Inr s'" and "\<not> update_colors s" and "e \<noteq> Toggle"
  shows "running_avg s' = running_avg s \<and> \<not> update_colors s'"
proof (cases e)
  case Tick
  with assms tick_frozen show ?thesis by simp
qed (use assms in \<open>auto simp: get_color_info_def get_depth_info_def camera_info_callback_def\<close>)

lemma run_frozen:
  assumes "run E evs s = Inr s'" and "\<not> update_colors s" and "Toggle \<notin> set evs"
  shows "running_avg s' = running_avg s \<and> \<not> update_colors s'"
  using assms
proof (induction evs arbitrary: s)
  case Nil
  then show ?case by simp
next
  case (Cons e evs)
  from Cons.prems(1) obtain s1 where
    h: "handle E e s = Inr s1" and r: "run E evs s1 = Inr s'"
    by (auto split: sum.splits)
  from Cons.prems(3) have ne: "e \<noteq> Toggle" and rest: "Toggle \<notin> set evs" by auto
  from handle_frozen [OF h Cons.prems(2) ne] have
    1: "running_avg s1 = running_avg s" and 2: "\<not> update_colors s1" by simp_all
  from Cons.IH [OF r 2 rest] 1 show ?case by simp
qed

text \<open>
  Claim C6. While the Publish-Enable Flag is false, any number of events other than a
  toggle (ticks that detect colors, new images, new intrinsics) leaves every centroid
  history as it was: after toggling off, such events, and toggling on again, the
  histories are those from before the freeze and the flag is true again. On a tick
  during the freeze, with both images received, one frame is broadcast for each color
  of the table, and the transforms and the fallback are those of a broadcast from the
  medians of the frozen histories.
\<close>

theorem freeze_leaves_histories:
  assumes "update_colors s0" and "Toggle \<notin> set evs"
    and "run E (Toggle # evs) s0 = Inr s"
  shows "running_avg s = running_avg s0 \<and> \<not> update_colors s
       \<and> (\<exists>t. run E (Toggle # evs @ [Toggle]) s0 = Inr t
              \<and> running_avg t = running_avg s0 \<and> update_colors t)
       \<and> (tick_ok E s \<and> color_image s \<noteq> [] \<and> depth_image s \<noteq> [] \<longrightarrow>
            (\<exists>s'. timer_callback E s = Inr s'
               \<and> running_avg s' = running_avg s0
               \<and> length (tf_broadcaster s') = length (tf_broadcaster s) + length (COLORS_HSV E)
               \<and> s'\<lparr>image_pub := image_pub s\<rparr> = frozen_broadcast E (COLORS_HSV E) s))"
proof -
  from assms(3) have r: "run E evs (toggle_tf_publish s0) = Inr s" by simp
  from assms(1) have off: "\<not> update_colors (toggle_tf_publish s0)"
    and same: "running_avg (toggle_tf_publish s0) = running_avg s0"
    by (simp_all add: toggle_tf_publish_def)
  from run_frozen [OF r off assms(2)] same
  have 1: "running_avg s = running_avg s0" and 2: "\<not> update_colors s" by simp_all
  have "run E (Toggle # evs @ [Toggle]) s0 = Inr (toggle_tf_publish s)"
    using r run_append [of E evs "[Toggle]" "toggle_tf_publish s0"] by simp
  moreover from 1 2 have "running_avg (toggle_tf_publish s) = running_avg s0"
    "update_colors (toggle_tf_publish s)"
    by (simp_all add: toggle_tf_publish_def)
  ultimately have 3: "\<exists>t. run E (Toggle # evs @ [Toggle]) s0 = Inr t
              \<and> running_avg t = running_avg s0 \<and> update_colors t"
    by blast
  have 4: "\<exists>s'. timer_callback E s = Inr s'
               \<and> running_avg s' = running_avg s0
               \<and> length (tf_broadcaster s') = length (tf_broadcaster s) + length (COLORS_HSV E)
               \<and> s'\<lparr>image_pub := image_pub s\<rparr> = frozen_broadcast E (COLORS_HSV E) s"
    if a: "tick_ok E s \<and> color_image s \<noteq> [] \<and> depth_image s \<noteq> []"
  proof -
    from a obtain s' where t: "timer_callback E s = Inr s'" using tick_total by blast
    with a have l: "colors_loop E (COLORS_HSV E) s = Inr s'" by (simp add: tick_loop)
    from loop_frozen [OF l 2, of "image_pub s"] 1
    have f: "running_avg s' = running_avg s0"
      "s'\<lparr>image_pub := image_pub s\<rparr> = frozen_broadcast E (COLORS_HSV E) s"
      by simp_all
    from loop_tf [OF l] obtain ts where
      ts: "tf_broadcaster s' = tf_broadcaster s @ ts"
          "map child_frame_id ts = map (\<lambda>entry. fst entry @ ''_frame'') (COLORS_HSV E)"
      by blast
    from ts(2) have "length ts = length (COLORS_HSV E)"
      by (metis length_map)
    with ts(1) have "length (tf_broadcaster s') = length (tf_broadcaster s) + length (COLORS_HSV E)"
      by simp
    with t f show ?thesis by blast
  qed
  from 1 2 3 4 show ?thesis by blast
qed

theorem freeze_leaves_histories_witness:
  "update_colors demo_cam \<and> Toggle \<notin> set demo_events
   \<and> (\<exists>s. run demo_env (Toggle # demo_events) demo_cam = Inr s
        \<and> running_avg s = running_avg demo_cam \<and> \<not> update_colors s
        \<and> detected demo_env s (''GREEN'', Vec 40 100 100, Vec 80 255 255)
        \<and> (\<exists>t. run demo_env (Toggle # demo_events @ [Toggle]) demo_cam = Inr t
              \<and> running_avg t = running_avg demo_cam \<and> update_colors t)
        \<and> tick_ok demo_env s \<and> color_image s \<noteq> [] \<and> depth_image s \<noteq> []
        \<and> (\<exists>s'. timer_callback demo_env s = Inr s'
               \<and> running_avg s' = running_avg demo_cam
               \<and> length (tf_broadcaster s') = length (tf_broadcaster s) + 2
               \<and> s'\<lparr>image_pub := image_pub s\<rparr>
                    = frozen_broadcast demo_env (COLORS_HSV demo_env) s))"
proof -
  define s where "s = projr (run demo_env (Toggle # demo_events) demo_cam)"
  have 1: "update_colors demo_cam \<and> Toggle \<notin> set demo_events" by code_simp
  have "case run demo_env (Toggle # demo_events) demo_cam of Inl e \<Rightarrow> False | Inr t \<Rightarrow> True"
    by code_simp
  then have 2: "run demo_env (Toggle # demo_events) demo_cam = Inr s"
    unfolding s_def by (auto split: sum.splits)
  have 3: "tick_ok demo_env s \<and> color_image s \<noteq> [] \<and> depth_image s \<noteq> []"
    unfolding s_def by code_simp
  have 4: "detected demo_env s (''GREEN'', Vec 40 100 100, Vec 80 255 255)"
    unfolding s_def by code_simp
  have 5: "length (COLORS_HSV demo_env) = 2" by (simp add: demo_defs)
  from 1 have a: "update_colors demo_cam" and b: "Toggle \<notin> set demo_events" by simp_all
  note th = freeze_leaves_histories [OF a b 2]
  from th have c: "running_avg s = running_avg demo_cam \<and> \<not> update_colors s
       \<and> (\<exists>t. run demo_env (Toggle # demo_events @ [Toggle]) demo_cam = Inr t
              \<and> running_avg t = running_avg demo_cam \<and> update_colors t)"
    by blast
  from th 3 have "\<exists>s'. timer_callback demo_env s = Inr s'
               \<and> running_avg s' = running_avg demo_cam
               \<and> length (tf_broadcaster s') = length (tf_broadcaster s) + length (COLORS_HSV demo_env)
               \<and> s'\<lparr>image_pub := image_pub s\<rparr>
                    = frozen_broadcast demo_env (COLORS_HSV demo_env) s"
    by blast
  with 5 have d: "\<exists>s'. timer_callback demo_env s = Inr s'
               \<and> running_avg s' = running_avg demo_cam
               \<and> length (tf_broadcaster s') = length (tf_broadcaster s) + 2
               \<and> s'\<lparr>image_pub := image_pub s\<rparr>
                    = frozen_broadcast demo_env (COLORS_HSV demo_env) s"
    by simp
  from 1 2 3 4 c d show ?thesis by blast
qed

end
